theory Spec2Isabelle
  imports Complex_Main "HOL-Library.Char_ord"
begin

section \<open>Password strength policy (app.py, lines 17--49)\<close>

text \<open>
  A Python \<open>str\<close> is modelled as a \<open>string\<close>, one \<open>char\<close> per character, so that
  \<open>length\<close> is Python's \<open>len\<close>. The four character classes of the policy hold
  ASCII characters only, so a character outside ASCII counts for the length and for
  nothing else, whichever it is. The module constants keep their names.
\<close>

definition MIN_PASSWORD_LENGTH :: nat where
  "MIN_PASSWORD_LENGTH = 8"

definition REQUIRE_UPPERCASE :: bool where
  "REQUIRE_UPPERCASE = True"

definition REQUIRE_LOWERCASE :: bool where
  "REQUIRE_LOWERCASE = True"

definition REQUIRE_NUMBERS :: bool where
  "REQUIRE_NUMBERS = True"

definition REQUIRE_SPECIAL_CHARS :: bool where
  "REQUIRE_SPECIAL_CHARS = True"

text \<open>
  The character class \<^verbatim>\<open>[!@#$%^&*(),.?":{}|<>]\<close>: inside a class every one of
  these characters is literal (the caret is not in first position). The double quote
  is written by its code, 0x22.
\<close>

definition SPECIAL_CHARS :: "char list" where
  "SPECIAL_CHARS = ''!@#$%^&*(),.?'' @ [CHR 0x22] @ '':{}|<>''"

definition in_range :: "char \<Rightarrow> char \<Rightarrow> char \<Rightarrow> bool" where
  \<comment> \<open>membership in a regular-expression range such as \<^verbatim>\<open>A-Z\<close>\<close>
  "in_range lo hi c = (lo \<le> c \<and> c \<le> hi)"

definition re_search :: "(char \<Rightarrow> bool) \<Rightarrow> string \<Rightarrow> bool" where
  \<comment> \<open>\<^verbatim>\<open>re.search\<close> of a single character class: a match exists iff some character
      of the string is in the class\<close>
  "re_search cls s = list_ex cls s"

fun join :: "string \<Rightarrow> string list \<Rightarrow> string" where
  "join sep [] = []"
| "join sep [x] = x"
| "join sep (x # y # ys) = x @ sep @ join sep (y # ys)"

definition failed_requirements :: "string \<Rightarrow> string list" where
  \<comment> \<open>the list \<^verbatim>\<open>messages\<close> after the four checks; \<^verbatim>\<open>checks\<close> receives one
      \<^verbatim>\<open>False\<close> per message, so it is non-empty exactly when \<^verbatim>\<open>messages\<close> is\<close>
  "failed_requirements password =
     (if REQUIRE_UPPERCASE \<and> \<not> re_search (in_range CHR ''A'' CHR ''Z'') password
      then [''uppercase letter''] else []) @
     (if REQUIRE_LOWERCASE \<and> \<not> re_search (in_range CHR ''a'' CHR ''z'') password
      then [''lowercase letter''] else []) @
     (if REQUIRE_NUMBERS \<and> \<not> re_search (in_range CHR ''0'' CHR ''9'') password
      then [''number''] else []) @
     (if REQUIRE_SPECIAL_CHARS \<and> \<not> re_search (\<lambda>c. c \<in> set SPECIAL_CHARS) password
      then [''special character''] else [])"

definition is_password_strong :: "string \<Rightarrow> bool \<times> string" where
  "is_password_strong password =
     (if length password < MIN_PASSWORD_LENGTH
      then (False, ''Password must be at least 8 characters long'')
      else let messages = failed_requirements password in
        if messages \<noteq> []
        then (False, ''Password must contain: '' @ join '', '' messages)
        else (True, ''Password meets strength requirements''))"


section \<open>Python values decoded from JSON\<close>

text \<open>
  The feeds are read with \<^verbatim>\<open>response.json()\<close>, so every value the fetch functions
  handle is a decoded JSON value: \<^verbatim>\<open>None\<close>, a bool, a number, a \<^verbatim>\<open>str\<close>, a
  \<^verbatim>\<open>list\<close> or a \<^verbatim>\<open>dict\<close> with string keys. A number is modelled by the exact
  value of the decoded Python number, an \<^verbatim>\<open>int\<close> or a finite \<^verbatim>\<open>float\<close> (the order
  tests against 4, 6, 5.0, 6.5 and 8.0 and the doubling of a magnitude are exact on
  them); the floats NaN and Infinity, which the decoder gives for the literals of these
  names and for a literal such as \<^verbatim>\<open>1e999\<close>, are not modelled. A number beyond the
  range of the floats is therefore an \<^verbatim>\<open>int\<close>. A dict is the list of its items, looked
  up with \<open>map_of\<close>. The dicts that the fetch functions build are values of the same
  type.
\<close>

datatype json =
    JNull
  | JBool bool
  | JNum real
  | JStr string
  | JArr "json list"
  | JObj "(string \<times> json) list"

text \<open>
  The exceptions that can leave the code. \<open>RequestException\<close> stands for the
  \<^verbatim>\<open>requests.exceptions.RequestException\<close> family, the only one that the
  \<^verbatim>\<open>except\<close> clauses of the cyclone and tsunami fetchers catch; the others come from
  dynamic accesses to the payload.
\<close>

datatype exn =
  RequestException | KeyError | IndexError | TypeError | AttributeError | ValueError | OverflowError

definition and_then :: "exn + 'a \<Rightarrow> ('a \<Rightarrow> exn + 'b) \<Rightarrow> exn + 'b" where
  \<comment> \<open>sequencing: an exception raised by the first step skips the rest\<close>
  "and_then m f = (case m of Inl e \<Rightarrow> Inl e | Inr v \<Rightarrow> f v)"

fun py_get :: "json \<Rightarrow> string \<Rightarrow> json \<Rightarrow> exn + json" where
  \<comment> \<open>\<^verbatim>\<open>x.get(key, dflt)\<close>: only a dict has the method\<close>
  "py_get (JObj items) key dflt =
     Inr (case map_of items key of None \<Rightarrow> dflt | Some v \<Rightarrow> v)"
| "py_get x key dflt = Inl AttributeError"

fun py_item :: "json \<Rightarrow> string \<Rightarrow> exn + json" where
  \<comment> \<open>\<^verbatim>\<open>x["key"]\<close>: a missing key raises KeyError; a list or a str wants an integer
      index and the other values are not subscriptable, both TypeError\<close>
  "py_item (JObj items) key =
     (case map_of items key of None \<Rightarrow> Inl KeyError | Some v \<Rightarrow> Inr v)"
| "py_item x key = Inl TypeError"

fun py_index :: "json \<Rightarrow> nat \<Rightarrow> exn + json" where
  \<comment> \<open>\<^verbatim>\<open>x[i]\<close> for a literal index \<open>i \<ge> 0\<close>; a dict decoded from JSON has no
      integer key\<close>
  "py_index (JArr xs) i = (if i < length xs then Inr (xs ! i) else Inl IndexError)"
| "py_index (JStr s) i = (if i < length s then Inr (JStr [s ! i]) else Inl IndexError)"
| "py_index (JObj items) i = Inl KeyError"
| "py_index x i = Inl TypeError"

definition dict_keys :: "(string \<times> json) list \<Rightarrow> string list" where
  \<comment> \<open>the keys of a dict, each once, in order of first appearance\<close>
  "dict_keys items = rev (remdups (rev (map fst items)))"

fun py_len :: "json \<Rightarrow> exn + nat" where
  "py_len (JArr xs) = Inr (length xs)"
| "py_len (JStr s) = Inr (length s)"
| "py_len (JObj items) = Inr (length (dict_keys items))"
| "py_len x = Inl TypeError"

fun py_iter :: "json \<Rightarrow> exn + json list" where
  \<comment> \<open>the values a \<^verbatim>\<open>for\<close> loop runs through: the elements of a list, the
      one-character strings of a str, the keys of a dict\<close>
  "py_iter (JArr xs) = Inr xs"
| "py_iter (JStr s) = Inr (map (\<lambda>c. JStr [c]) s)"
| "py_iter (JObj items) = Inr (map JStr (dict_keys items))"
| "py_iter x = Inl TypeError"

fun py_slice :: "json \<Rightarrow> nat \<Rightarrow> exn + json" where
  \<comment> \<open>\<^verbatim>\<open>x[:n]\<close>; a dict rejects a slice (TypeError, a KeyError from Python 3.12 on)\<close>
  "py_slice (JArr xs) n = Inr (JArr (take n xs))"
| "py_slice (JStr s) n = Inr (JStr (take n s))"
| "py_slice x n = Inl TypeError"


text \<open>
  The result of \<^verbatim>\<open>float\<close>. On a str it can be an infinity or NaN (\<^verbatim>\<open>float("inf")\<close>,
  \<^verbatim>\<open>float("1e999")\<close>, \<^verbatim>\<open>float("nan")\<close>), so these values are part of the type; an order
  test with NaN is false.
\<close>

datatype pyfloat = Finite real | PosInf | NegInf | NaN

fun float_ge :: "pyfloat \<Rightarrow> real \<Rightarrow> bool" where
  \<comment> \<open>\<^verbatim>\<open>x >= t\<close> for a float \<open>x\<close> and a finite \<open>t\<close>\<close>
  "float_ge (Finite x) t = (x \<ge> t)"
| "float_ge PosInf t = True"
| "float_ge NegInf t = False"
| "float_ge NaN t = False"

definition in_float_range :: "real \<Rightarrow> bool" where
  \<comment> \<open>the numbers that round to a finite float: the largest float is
      \<open>2 ^ 1024 - 2 ^ 971\<close>, and from \<open>2 ^ 1024 - 2 ^ 970\<close> on the rounding to nearest,
      ties to even, leaves the range\<close>
  "in_float_range m = (\<bar>m\<bar> < 2 ^ 1024 - 2 ^ 970)"

fun py_float :: "(string \<Rightarrow> pyfloat option) \<Rightarrow> json \<Rightarrow> exn + pyfloat" where
  \<comment> \<open>\<^verbatim>\<open>float(x)\<close>. A float is returned as it is; an int is converted, and one beyond
      the range of the floats raises OverflowError; the value of the result is taken
      as the value of the number, which does not change the order tests against 5.0,
      6.5 and 8.0. The parsing of a str by the interpreter (the float nearest to a decimal
      numeral, the words \<^verbatim>\<open>inf\<close> and \<^verbatim>\<open>nan\<close>) is the parameter \<open>str_float\<close>,
      \<open>None\<close> where the str is not a number (ValueError)\<close>
  "py_float str_float (JNum m) =
     (if in_float_range m then Inr (Finite m) else Inl OverflowError)"
| "py_float str_float (JBool b) = Inr (Finite (if b then 1 else 0))"
| "py_float str_float (JStr s) =
     (case str_float s of None \<Rightarrow> Inl ValueError | Some x \<Rightarrow> Inr x)"
| "py_float str_float x = Inl TypeError"


section \<open>The upstream HTTP call\<close>

text \<open>
  What \<^verbatim>\<open>requests.get\<close> meets: the call raises (a connection, DNS or TLS failure, or
  a timeout; both are \<open>RequestException\<close>s), or it returns a response with a status code
  and a body, \<open>None\<close> when the body is not valid JSON. With requests 2.27 or later the
  error of \<^verbatim>\<open>response.json()\<close> on such a body is a \<open>RequestException\<close> too.
\<close>

datatype upstream = TransportError | Timeout | Response int "json option"


section \<open>Seismic feed (app.py, lines 181--207)\<close>

definition quake_record :: "json \<Rightarrow> exn + json" where
  \<comment> \<open>the body of the loop: \<^verbatim>\<open>coords\<close>, then the four items of the dict in order\<close>
  "quake_record quake =
     and_then (py_item quake ''geometry'') (\<lambda>geometry.
     and_then (py_item geometry ''coordinates'') (\<lambda>coords.
     and_then (py_item quake ''properties'') (\<lambda>properties.
     and_then (py_item properties ''place'') (\<lambda>place.
     and_then (py_item quake ''properties'') (\<lambda>properties'.
     and_then (py_item properties' ''mag'') (\<lambda>mag.
     and_then (py_index coords 1) (\<lambda>lat.
     and_then (py_index coords 0) (\<lambda>lon.
     Inr (JObj [(''place'', place), (''magnitude'', mag),
                (''latitude'', lat), (''longitude'', lon)])))))))))"

fun earthquake_loop :: "json list \<Rightarrow> json list \<Rightarrow> exn + json list" where
  "earthquake_loop [] earthquake_list = Inr earthquake_list"
| "earthquake_loop (quake # rest) earthquake_list =
     and_then (quake_record quake) (\<lambda>r. earthquake_loop rest (earthquake_list @ [r]))"

definition fetch_earthquake_data :: "upstream \<Rightarrow> exn + json list" where
  \<comment> \<open>\<^verbatim>\<open>requests.get\<close> is called outside any \<^verbatim>\<open>try\<close>, so whatever it raises
      leaves the function; the bare \<^verbatim>\<open>except\<close> covers \<^verbatim>\<open>response.json()\<close> only\<close>
  "fetch_earthquake_data up =
     (case up of
        TransportError \<Rightarrow> Inl RequestException
      | Timeout \<Rightarrow> Inl RequestException
      | Response status_code body \<Rightarrow>
          if status_code \<noteq> 200 then Inr []
          else (case body of
                  None \<Rightarrow> Inr []
                | Some data \<Rightarrow>
                    and_then (py_get data ''features'' (JArr [])) (\<lambda>earthquakes.
                    and_then (py_slice earthquakes 10) (\<lambda>first10.
                    and_then (py_iter first10) (\<lambda>quakes.
                    earthquake_loop quakes [])))))"



section \<open>Wildfire feed (app.py, lines 317--346)\<close>

definition wildfire_source :: "json \<Rightarrow> exn + json" where
  \<comment> \<open>\<^verbatim>\<open>event.get("sources", [{}])[0].get("url", "No source available")\<close>\<close>
  "wildfire_source event =
     and_then (py_get event ''sources'' (JArr [JObj []])) (\<lambda>sources.
     and_then (py_index sources 0) (\<lambda>s.
     py_get s ''url'' (JStr ''No source available'')))"

definition wildfire_record :: "json \<Rightarrow> json \<Rightarrow> exn + json" where
  "wildfire_record event coords =
     and_then (py_get event ''title'' (JStr ''Wildfire'')) (\<lambda>title.
     and_then (py_index coords 1) (\<lambda>lat.
     and_then (py_index coords 0) (\<lambda>lon.
     and_then (wildfire_source event) (\<lambda>source.
     Inr (JObj [(''title'', title), (''latitude'', lat),
                (''longitude'', lon), (''source'', source)])))))"

fun geometry_loop :: "json \<Rightarrow> json list \<Rightarrow> json list \<Rightarrow> exn + json list" where
  \<comment> \<open>the inner loop over the geometry points of one event\<close>
  "geometry_loop event [] wildfire_list = Inr wildfire_list"
| "geometry_loop event (g # rest) wildfire_list =
     and_then (py_get g ''coordinates'' (JArr [])) (\<lambda>coords.
     and_then (py_len coords) (\<lambda>n.
     if n = 2
     then and_then (wildfire_record event coords) (\<lambda>r.
            geometry_loop event rest (wildfire_list @ [r]))
     else geometry_loop event rest wildfire_list))"

fun wildfire_loop :: "json list \<Rightarrow> json list \<Rightarrow> exn + json list" where
  \<comment> \<open>the outer loop over the events\<close>
  "wildfire_loop [] wildfire_list = Inr wildfire_list"
| "wildfire_loop (event # rest) wildfire_list =
     and_then (py_get event ''geometry'' (JArr [])) (\<lambda>geometry.
     and_then (py_iter geometry) (\<lambda>points.
     and_then (geometry_loop event points wildfire_list) (\<lambda>wildfire_list'.
     wildfire_loop rest wildfire_list')))"

definition fetch_wildfire_data :: "upstream \<Rightarrow> exn + json list" where
  "fetch_wildfire_data up =
     (case up of
        TransportError \<Rightarrow> Inl RequestException
      | Timeout \<Rightarrow> Inl RequestException
      | Response status_code body \<Rightarrow>
          if status_code \<noteq> 200 then Inr []
          else (case body of
                  None \<Rightarrow> Inr []
                | Some data \<Rightarrow>
                    and_then (py_get data ''events'' (JArr [])) (\<lambda>events.
                    and_then (py_slice events 10) (\<lambda>first10.
                    and_then (py_iter first10) (\<lambda>evs.
                    wildfire_loop evs [])))))"


section \<open>Cyclone feed (app.py, lines 456--489 and 556--569)\<close>

definition hurricane_record :: "json \<Rightarrow> exn + json" where
  "hurricane_record feature =
     and_then (py_get feature ''properties'' (JObj [])) (\<lambda>properties.
     and_then (py_get feature ''geometry'' (JObj [])) (\<lambda>geometry.
     and_then (py_get geometry ''coordinates'' (JArr [JNum 0, JNum 0])) (\<lambda>coordinates.
     and_then (py_get properties ''name'' (JStr ''Unknown Storm'')) (\<lambda>storm_name.
     and_then (py_get properties ''fullIssue'' (JStr ''No advisory available.'')) (\<lambda>advisory.
     and_then (py_get properties ''windMph'' (JStr ''Unknown Speed'')) (\<lambda>wind_speed.
     and_then (py_get properties ''category'' (JStr ''Unknown Category'')) (\<lambda>storm_category.
     and_then (py_index coordinates 1) (\<lambda>lat.
     and_then (py_index coordinates 0) (\<lambda>lon.
     Inr (JObj [(''name'', storm_name), (''latitude'', lat), (''longitude'', lon),
                (''advisory'', advisory), (''wind_speed'', wind_speed),
                (''category'', storm_category)]))))))))))"

fun hurricane_loop :: "json list \<Rightarrow> json list \<Rightarrow> exn + json list" where
  "hurricane_loop [] hurricanes = Inr hurricanes"
| "hurricane_loop (feature # rest) hurricanes =
     and_then (hurricane_record feature) (\<lambda>r. hurricane_loop rest (hurricanes @ [r]))"

definition raise_for_status :: "int \<Rightarrow> bool" where
  \<comment> \<open>\<^verbatim>\<open>response.raise_for_status()\<close> raises for the client and server error codes\<close>
  "raise_for_status status_code = (400 \<le> status_code \<and> status_code < 600)"

definition fetch_hurricane_data :: "upstream \<Rightarrow> exn + json list" where
  \<comment> \<open>the \<^verbatim>\<open>try\<close> covers the call, the status check and the decoding; its handler
      reports the failure on the page and returns the empty list. The loop runs
      over all the features, outside the \<^verbatim>\<open>try\<close>.\<close>
  "fetch_hurricane_data up =
     (case up of
        TransportError \<Rightarrow> Inr []
      | Timeout \<Rightarrow> Inr []
      | Response status_code body \<Rightarrow>
          if raise_for_status status_code then Inr []
          else (case body of
                  None \<Rightarrow> Inr []
                | Some data \<Rightarrow>
                    and_then (py_get data ''features'' (JArr [])) (\<lambda>features.
                    and_then (py_iter features) (\<lambda>fs.
                    hurricane_loop fs []))))"

definition category_colors :: "(string \<times> string) list" where
  "category_colors =
     [(''Tropical Depression'', ''green''),
      (''Tropical Storm'', ''orange''),
      (''Category 1'', ''yellow''),
      (''Category 2'', ''gold''),
      (''Category 3'', ''red''),
      (''Category 4'', ''darkred''),
      (''Category 5'', ''purple'')]"

fun hurricane_marker_color :: "json \<Rightarrow> exn + string" where
  \<comment> \<open>\<^verbatim>\<open>category_colors.get(category, "blue")\<close>: a key that is a list or a dict is
      unhashable (TypeError); a key of another type is equal to no label\<close>
  "hurricane_marker_color (JStr category) =
     Inr (case map_of category_colors category of None \<Rightarrow> ''blue'' | Some c \<Rightarrow> c)"
| "hurricane_marker_color (JArr xs) = Inl TypeError"
| "hurricane_marker_color (JObj items) = Inl TypeError"
| "hurricane_marker_color x = Inr ''blue''"


section \<open>Tsunami feed (app.py, lines 602--629 and 691--727)\<close>

definition tsunami_record :: "json \<Rightarrow> exn + json" where
  "tsunami_record event =
     and_then (py_get event ''locationName'' (JStr ''Unknown Location'')) (\<lambda>location.
     and_then (py_get event ''latitude'' JNull) (\<lambda>lat.
     and_then (py_get event ''longitude'' JNull) (\<lambda>lon.
     and_then (py_get event ''earthquakeMagnitude'' (JStr ''N/A'')) (\<lambda>magnitude.
     and_then (py_get event ''depth'' (JStr ''N/A'')) (\<lambda>depth.
     and_then (py_get event ''year'' (JStr ''Unknown Year'')) (\<lambda>year.
     and_then (py_get event ''cause'' (JStr ''No Advisory Available'')) (\<lambda>cause.
     Inr (JObj [(''location'', location), (''latitude'', lat), (''longitude'', lon),
                (''magnitude'', magnitude), (''depth'', depth), (''year'', year),
                (''cause'', cause)]))))))))"

fun tsunami_loop :: "json list \<Rightarrow> json list \<Rightarrow> exn + json list" where
  "tsunami_loop [] tsunamis = Inr tsunamis"
| "tsunami_loop (event # rest) tsunamis =
     and_then (tsunami_record event) (\<lambda>r. tsunami_loop rest (tsunamis @ [r]))"

definition fetch_tsunami_data :: "upstream \<Rightarrow> exn + json list" where
  \<comment> \<open>the whole body is inside the \<^verbatim>\<open>try\<close>, whose handler catches
      \<open>RequestException\<close> only: an exception of the loop still leaves the function\<close>
  "fetch_tsunami_data up =
     (case up of
        TransportError \<Rightarrow> Inr []
      | Timeout \<Rightarrow> Inr []
      | Response status_code body \<Rightarrow>
          if raise_for_status status_code then Inr []
          else (case body of
                  None \<Rightarrow> Inr []
                | Some data \<Rightarrow>
                    and_then (py_iter data) (\<lambda>events. tsunami_loop events [])))"

text \<open>
  The page \<^verbatim>\<open>tsunamis()\<close> colours the fetched events in four list comprehensions over
  the events that have a location. A comprehension evaluates its expression on each
  element in order and stops at the first exception.
\<close>

fun comprehension :: "('a \<Rightarrow> exn + 'b) \<Rightarrow> 'a list \<Rightarrow> exn + 'b list" where
  "comprehension f [] = Inr []"
| "comprehension f (x # xs) =
     and_then (f x) (\<lambda>y. and_then (comprehension f xs) (\<lambda>ys. Inr (y # ys)))"

definition has_location :: "json \<Rightarrow> exn + bool" where
  \<comment> \<open>\<^verbatim>\<open>event["latitude"] is not None and event["longitude"] is not None\<close>; the
      longitude is not read when the latitude is \<^verbatim>\<open>None\<close>\<close>
  "has_location event =
     and_then (py_item event ''latitude'') (\<lambda>lat.
     if lat = JNull then Inr False
     else and_then (py_item event ''longitude'') (\<lambda>lon. Inr (lon \<noteq> JNull)))"

fun valid_events :: "json list \<Rightarrow> exn + json list" where
  \<comment> \<open>the comprehension with the condition \<open>has_location\<close>\<close>
  "valid_events [] = Inr []"
| "valid_events (event # rest) =
     and_then (has_location event) (\<lambda>keep.
     and_then (valid_events rest) (\<lambda>valid.
     Inr (if keep then event # valid else valid)))"

definition tsunami_location :: "json \<Rightarrow> exn + json \<times> json" where
  \<comment> \<open>the element of \<^verbatim>\<open>locations\<close>\<close>
  "tsunami_location event =
     and_then (py_item event ''latitude'') (\<lambda>lat.
     and_then (py_item event ''longitude'') (\<lambda>lon. Inr (lat, lon)))"

definition tsunami_popup :: "json \<Rightarrow> exn + json list" where
  \<comment> \<open>the element of \<^verbatim>\<open>popups\<close>: the five fields that the text of the popup
      formats; the formatting itself raises nothing\<close>
  "tsunami_popup event =
     and_then (py_item event ''location'') (\<lambda>location.
     and_then (py_item event ''magnitude'') (\<lambda>magnitude.
     and_then (py_item event ''depth'') (\<lambda>depth.
     and_then (py_item event ''year'') (\<lambda>year.
     and_then (py_item event ''cause'') (\<lambda>cause.
     Inr [location, magnitude, depth, year, cause])))))"

definition tsunami_marker_color :: "(string \<Rightarrow> pyfloat option) \<Rightarrow> json \<Rightarrow> exn + string" where
  \<comment> \<open>the element of \<^verbatim>\<open>marker_colors\<close>; the three calls of \<^verbatim>\<open>float\<close> on the same
      value give the same result and are one step here\<close>
  "tsunami_marker_color str_float event =
     and_then (py_item event ''magnitude'') (\<lambda>magnitude.
     if magnitude = JStr ''N/A'' then Inr ''blue''
     else and_then (py_float str_float magnitude) (\<lambda>m.
       Inr (if float_ge m 8.0 then ''darkred''
            else if float_ge m 6.5 then ''red''
            else if float_ge m 5.0 then ''orange''
            else ''yellow'')))"

definition tsunamis_marker_colors ::
  "(string \<Rightarrow> pyfloat option) \<Rightarrow> json list \<Rightarrow> exn + string list" where
  \<comment> \<open>the list \<^verbatim>\<open>marker_colors\<close> that the page computes from the fetched list, one
      colour per marker; no marker when the list or \<^verbatim>\<open>valid_events\<close> is empty\<close>
  "tsunamis_marker_colors str_float tsunami_events =
     (if tsunami_events = [] then Inr []
      else and_then (valid_events tsunami_events) (\<lambda>valid.
        if valid = [] then Inr []
        else and_then (comprehension tsunami_location valid) (\<lambda>locations.
             and_then (comprehension tsunami_popup valid) (\<lambda>popups.
             comprehension (tsunami_marker_color str_float) valid))))"



section \<open>The ten-minute cache (\<^verbatim>\<open>@st.cache_data(ttl=600)\<close>)\<close>

text \<open>
  Each fetch function is wrapped by the decorator \<^verbatim>\<open>st.cache_data(ttl=600)\<close>, which
  memoises the value that the function returns: a call made less than 600 seconds
  after the stored value was computed returns that value without running the function;
  any other call runs the function and stores what it returns, with the time of the
  call. A call that raises stores nothing. The decorator sees only the returned value:
  the empty list that a fetch function returns after a failure is a value like any
  other. The cache holds one entry per function (none of them takes an argument), the
  pair of the stored list and of the time it was fetched; the clock is the argument
  \<open>now\<close>.
\<close>

type_synonym cache_entry = "json list \<times> real"

definition ttl :: real where
  "ttl = 600"

definition run_and_store ::
  "(upstream \<Rightarrow> exn + json list) \<Rightarrow> real \<Rightarrow> upstream \<Rightarrow> cache_entry option
     \<Rightarrow> (exn + json list) \<times> cache_entry option" where
  "run_and_store fetch now up entry =
     (case fetch up of
        Inl e \<Rightarrow> (Inl e, entry)
      | Inr events \<Rightarrow> (Inr events, Some (events, now)))"

definition cache_data ::
  "(upstream \<Rightarrow> exn + json list) \<Rightarrow> real \<Rightarrow> upstream \<Rightarrow> cache_entry option
     \<Rightarrow> (exn + json list) \<times> cache_entry option" where
  "cache_data fetch now up entry =
     (case entry of
        None \<Rightarrow> run_and_store fetch now up entry
      | Some (events, fetchedAt) \<Rightarrow>
          if now - fetchedAt < ttl then (Inr events, entry)
          else run_and_store fetch now up entry)"


section \<open>Vocabulary of the statements\<close>

text \<open>
  The definitions of this section are not part of the program: they name the inputs and
  the expected outputs that the statements about the wildfire loop and the tsunami page
  speak of.
\<close>

definition geometry_points :: "json \<Rightarrow> json list" where
  \<comment> \<open>the geometry points that the inner loop of the wildfire fetch runs through\<close>
  "geometry_points event =
     (case and_then (py_get event ''geometry'' (JArr [])) py_iter of
        Inl e \<Rightarrow> []
      | Inr points \<Rightarrow> points)"

definition point_coords :: "json \<Rightarrow> json list" where
  \<comment> \<open>the coordinates of a geometry point, when they are a list\<close>
  "point_coords g =
     (case py_get g ''coordinates'' (JArr []) of
        Inr (JArr cs) \<Rightarrow> cs
      | _ \<Rightarrow> [])"

definition located :: "json \<Rightarrow> bool" where
  \<comment> \<open>a tsunami record whose latitude and longitude are not \<^verbatim>\<open>None\<close>\<close>
  "located r =
     ((case py_item r ''latitude'' of Inl e \<Rightarrow> False | Inr lat \<Rightarrow> lat \<noteq> JNull) \<and>
      (case py_item r ''longitude'' of Inl e \<Rightarrow> False | Inr lon \<Rightarrow> lon \<noteq> JNull))"

definition tsunami_keys :: "string list" where
  "tsunami_keys =
     [''location'', ''latitude'', ''longitude'', ''magnitude'', ''depth'', ''year'', ''cause'']"

definition is_tsunami_record :: "json \<Rightarrow> bool" where
  \<comment> \<open>a dict with the seven keys of the dicts that the tsunami fetch builds\<close>
  "is_tsunami_record r =
     (case r of
        JObj items \<Rightarrow> list_all (\<lambda>k. map_of items k \<noteq> None) tsunami_keys
      | _ \<Rightarrow> False)"

definition event_title :: "json \<Rightarrow> json" where
  \<comment> \<open>the title that the records of a wildfire event share\<close>
  "event_title event =
     (case py_get event ''title'' (JStr ''Wildfire'') of Inl e \<Rightarrow> JNull | Inr title \<Rightarrow> title)"

definition event_source :: "json \<Rightarrow> json" where
  \<comment> \<open>the source URL that the records of a wildfire event share\<close>
  "event_source event =
     (case wildfire_source event of Inl e \<Rightarrow> JNull | Inr source \<Rightarrow> source)"

definition two_coordinates :: "json \<Rightarrow> bool" where
  "two_coordinates g = (length (point_coords g) = 2)"

definition event_records :: "json \<Rightarrow> json list" where
  \<comment> \<open>one record per geometry point that has exactly two coordinates\<close>
  "event_records event =
     map (\<lambda>g. JObj [(''title'', event_title event),
                    (''latitude'', point_coords g ! 1),
                    (''longitude'', point_coords g ! 0),
                    (''source'', event_source event)])
       (filter two_coordinates (geometry_points event))"

definition list_coordinates :: "json \<Rightarrow> bool" where
  \<comment> \<open>a geometry point that is a dict whose coordinates, if any, are a list\<close>
  "list_coordinates g =
     (case py_get g ''coordinates'' (JArr []) of Inr (JArr cs) \<Rightarrow> True | _ \<Rightarrow> False)"

definition regular_event :: "json \<Rightarrow> bool" where
  \<comment> \<open>a wildfire event that is a dict whose geometry, if any, is a list of such points,
      and whose sources, if any, are a non-empty list that starts with a dict\<close>
  "regular_event event =
     ((case py_get event ''geometry'' (JArr []) of
         Inr (JArr points) \<Rightarrow> list_all list_coordinates points
       | _ \<Rightarrow> False) \<and>
      (case wildfire_source event of Inl e \<Rightarrow> False | Inr source \<Rightarrow> True))"


section \<open>Sample payloads\<close>

text \<open>
  Upstream records used to run the functions on concrete inputs: a wildfire event with
  three points, a wildfire event without sources whose second point carries an altitude,
  a wildfire event with two points, three tsunami elements (the last one without a
  location), and an earthquake.
\<close>

definition three_point_fire :: json where
  "three_point_fire =
     JObj [(''title'', JStr ''Creek Fire''),
           (''sources'', JArr [JObj [(''url'', JStr ''https://inciweb.example/1'')]]),
           (''geometry'', JArr [JObj [(''coordinates'', JArr [JNum (-119.3), JNum 37.2])],
                                JObj [(''coordinates'', JArr [JNum (-119.4), JNum 37.3])],
                                JObj [(''coordinates'', JArr [JNum (-119.5), JNum 37.4])]])]"

definition mixed_fire :: json where
  "mixed_fire =
     JObj [(''title'', JStr ''Creek Fire''),
           (''geometry'', JArr [JObj [(''coordinates'', JArr [JNum (-119.3), JNum 37.2])],
                                JObj [(''coordinates'', JArr [JNum (-119.4), JNum 37.3, JNum 2100])],
                                JObj [(''coordinates'', JArr [JNum (-119.5), JNum 37.4])]])]"

definition two_point_fire :: json where
  "two_point_fire =
     JObj [(''title'', JStr ''Dixie Fire''),
           (''geometry'', JArr [JObj [(''coordinates'', JArr [JNum (-121.4), JNum 40.0])],
                                JObj [(''coordinates'', JArr [JNum (-121.3), JNum 40.1])]])]"

definition sample_tsunamis :: "json list" where
  "sample_tsunamis =
     [JObj [(''locationName'', JStr ''Sumatra''), (''latitude'', JNum 3.3),
            (''longitude'', JNum 95.9)],
      JObj [(''locationName'', JStr ''Honshu''), (''latitude'', JNum 38.3),
            (''longitude'', JNum 142.4), (''earthquakeMagnitude'', JNum 9.1)],
      JObj [(''locationName'', JStr ''Krakatau''), (''year'', JNum 1883)]]"

definition sample_quake :: json where
  "sample_quake =
     JObj [(''geometry'', JObj [(''coordinates'', JArr [JNum (-118.2), JNum 34.0, JNum 7])]),
           (''properties'', JObj [(''place'', JStr ''Los Angeles''), (''mag'', JNum 5.2)])]"


section \<open>Basic facts about the loops\<close>

lemma and_then_Inr [simp]: "and_then (Inr v) f = f v"
  by (simp add: and_then_def)

lemma and_then_Inl [simp]: "and_then (Inl e) f = Inl e"
  by (simp add: and_then_def)

lemma and_then_eq_Inr: "and_then m f = Inr r \<longleftrightarrow> (\<exists>v. m = Inr v \<and> f v = Inr r)"
  by (cases m) simp_all

lemma earthquake_loop_length:
  "earthquake_loop quakes acc = Inr rs \<Longrightarrow> length rs = length acc + length quakes"
proof (induction quakes arbitrary: acc)
  case Nil
  then show ?case by simp
next
  case (Cons quake rest)
  from Cons.prems obtain r where "earthquake_loop rest (acc @ [r]) = Inr rs"
    by (auto simp: and_then_eq_Inr)
  from Cons.IH [OF this] show ?case by simp
qed

lemma py_slice_iter_length:
  "py_slice x n = Inr y \<Longrightarrow> py_iter y = Inr zs \<Longrightarrow> length zs \<le> n"
  by (cases x) auto

lemma geometry_loop_length:
  "geometry_loop event points acc = Inr rs \<Longrightarrow> length rs \<le> length acc + length points"
proof (induction points arbitrary: acc)
  case Nil
  then show ?case by simp
next
  case (Cons g rest)
  from Cons.prems obtain coords and n :: nat where
    step: "(if n = 2
       then and_then (wildfire_record event coords) (\<lambda>r. geometry_loop event rest (acc @ [r]))
       else geometry_loop event rest acc) = Inr rs"
    by (auto simp: and_then_eq_Inr)
  show ?case
  proof (cases "n = 2")
    case True
    with step obtain r where "geometry_loop event rest (acc @ [r]) = Inr rs"
      by (auto simp: and_then_eq_Inr)
    from Cons.IH [OF this] show ?thesis by simp
  next
    case False
    with step have "geometry_loop event rest acc = Inr rs" by simp
    from Cons.IH [OF this] show ?thesis by simp
  qed
qed

lemma wildfire_loop_length:
  "wildfire_loop events acc = Inr rs \<Longrightarrow>
     length rs \<le> length acc + sum_list (map (\<lambda>e. length (geometry_points e)) events)"
proof (induction events arbitrary: acc)
  case Nil
  then show ?case by simp
next
  case (Cons event rest)
  from Cons.prems obtain geometry points acc' where
    g: "py_get event ''geometry'' (JArr []) = Inr geometry" and
    p: "py_iter geometry = Inr points" and
    inner: "geometry_loop event points acc = Inr acc'" and
    outer: "wildfire_loop rest acc' = Inr rs"
    by (auto simp: and_then_eq_Inr)
  from g p have gp: "geometry_points event = points"
    by (simp add: geometry_points_def)
  from geometry_loop_length [OF inner] Cons.IH [OF outer] gp show ?case by simp
qed


lemma regular_eventD:
  assumes "regular_event event"
  obtains points where "py_get event ''geometry'' (JArr []) = Inr (JArr points)"
    and "geometry_points event = points"
    and "list_all list_coordinates points"
    and "py_get event ''title'' (JStr ''Wildfire'') = Inr (event_title event)"
    and "wildfire_source event = Inr (event_source event)"
proof -
  from assms obtain points where g: "py_get event ''geometry'' (JArr []) = Inr (JArr points)"
    and l: "list_all list_coordinates points"
    by (auto simp: regular_event_def split: sum.splits json.splits)
  from assms obtain source where s: "wildfire_source event = Inr source"
    by (auto simp: regular_event_def split: sum.splits)
  from g obtain items where "event = JObj items" by (cases event) auto
  then have t: "py_get event ''title'' (JStr ''Wildfire'') = Inr (event_title event)"
    by (simp add: event_title_def)
  from g have gp: "geometry_points event = points" by (simp add: geometry_points_def)
  from s have "wildfire_source event = Inr (event_source event)"
    by (simp add: event_source_def)
  with g gp l t show thesis by (rule that)
qed

lemma list_coordinatesD:
  assumes "list_coordinates g"
  shows "py_get g ''coordinates'' (JArr []) = Inr (JArr (point_coords g))"
  using assms by (auto simp: list_coordinates_def point_coords_def split: sum.splits json.splits)

lemma geometry_loop_regular:
  assumes title: "py_get event ''title'' (JStr ''Wildfire'') = Inr title"
    and source: "wildfire_source event = Inr source"
  shows "list_all list_coordinates points \<Longrightarrow>
    geometry_loop event points acc =
      Inr (acc @ map (\<lambda>g. JObj [(''title'', title), (''latitude'', point_coords g ! 1),
                               (''longitude'', point_coords g ! 0), (''source'', source)])
                   (filter two_coordinates points))"
proof (induction points arbitrary: acc)
  case Nil
  then show ?case by simp
next
  case (Cons g rest)
  from Cons.prems have g: "py_get g ''coordinates'' (JArr []) = Inr (JArr (point_coords g))"
    and rest: "list_all list_coordinates rest"
    by (simp_all add: list_coordinatesD)
  show ?case
  proof (cases "two_coordinates g")
    case True
    then have len: "length (point_coords g) = 2" by (simp add: two_coordinates_def)
    then have rec: "wildfire_record event (JArr (point_coords g)) =
        Inr (JObj [(''title'', title), (''latitude'', point_coords g ! 1),
                   (''longitude'', point_coords g ! 0), (''source'', source)])"
      by (simp add: wildfire_record_def title source)
    from g len rec True Cons.IH [OF rest] show ?thesis by simp
  next
    case False
    then have len: "length (point_coords g) \<noteq> 2" by (simp add: two_coordinates_def)
    from g len False Cons.IH [OF rest] show ?thesis by simp
  qed
qed

lemma wildfire_loop_step:
  assumes "regular_event event"
  shows "wildfire_loop (event # rest) acc = wildfire_loop rest (acc @ event_records event)"
proof -
  from assms obtain points where g: "py_get event ''geometry'' (JArr []) = Inr (JArr points)"
    and gp: "geometry_points event = points"
    and l: "list_all list_coordinates points"
    and t: "py_get event ''title'' (JStr ''Wildfire'') = Inr (event_title event)"
    and s: "wildfire_source event = Inr (event_source event)"
    by (rule regular_eventD)
  from geometry_loop_regular [OF t s l, of acc] gp
  have "geometry_loop event points acc = Inr (acc @ event_records event)"
    by (simp add: event_records_def)
  with g show ?thesis by simp
qed

lemma wildfire_loop_regular:
  "list_all regular_event events \<Longrightarrow>
     wildfire_loop events acc = Inr (acc @ concat (map event_records events))"
proof (induction events arbitrary: acc)
  case Nil
  then show ?case by simp
next
  case (Cons event rest)
  then have e: "regular_event event" and r: "list_all regular_event rest" by simp_all
  have "wildfire_loop (event # rest) acc = wildfire_loop rest (acc @ event_records event)"
    using e by (rule wildfire_loop_step)
  also have "\<dots> = Inr ((acc @ event_records event) @ concat (map event_records rest))"
    using r by (rule Cons.IH)
  finally show ?case by simp
qed

lemma event_records_shared:
  "r \<in> set (event_records event) \<Longrightarrow>
     py_item r ''title'' = Inr (event_title event) \<and>
     py_item r ''source'' = Inr (event_source event)"
  by (auto simp: event_records_def)

lemmas fire_eval = regular_event_def list_coordinates_def wildfire_source_def
  event_records_def geometry_points_def two_coordinates_def point_coords_def
  event_title_def event_source_def

lemma comprehension_eq_Inr:
  "comprehension f xs = Inr ys \<longleftrightarrow> list_all2 (\<lambda>x y. f x = Inr y) xs ys"
proof (induction xs arbitrary: ys)
  case Nil
  show ?case by auto
next
  case (Cons x xs)
  have "comprehension f (x # xs) = Inr ys \<longleftrightarrow>
      (\<exists>y zs. f x = Inr y \<and> comprehension f xs = Inr zs \<and> ys = y # zs)"
    by (auto simp: and_then_eq_Inr)
  also have "\<dots> \<longleftrightarrow>
      (\<exists>y zs. f x = Inr y \<and> list_all2 (\<lambda>x y. f x = Inr y) xs zs \<and> ys = y # zs)"
    by (simp only: Cons.IH)
  also have "\<dots> \<longleftrightarrow> list_all2 (\<lambda>x y. f x = Inr y) (x # xs) ys"
    by (auto simp: list_all2_Cons1)
  finally show ?case .
qed

lemma comprehension_total:
  "(\<And>x. x \<in> set xs \<Longrightarrow> \<exists>y. f x = Inr y) \<Longrightarrow> \<exists>ys. comprehension f xs = Inr ys"
proof (induction xs)
  case Nil
  then show ?case by simp
next
  case (Cons x xs)
  then obtain y ys where "f x = Inr y" "comprehension f xs = Inr ys"
    by (meson list.set_intros)
  then show ?case by simp
qed

lemma tsunami_record_keys:
  "tsunami_record event = Inr r \<Longrightarrow> is_tsunami_record r"
  by (cases event) (auto simp: tsunami_record_def is_tsunami_record_def tsunami_keys_def)

lemma tsunami_loop_records:
  "tsunami_loop events acc = Inr rs \<Longrightarrow> list_all is_tsunami_record acc \<Longrightarrow>
     list_all is_tsunami_record rs"
proof (induction events arbitrary: acc)
  case Nil
  then show ?case by simp
next
  case (Cons event rest)
  from Cons.prems(1) obtain r where r: "tsunami_record event = Inr r"
    and loop: "tsunami_loop rest (acc @ [r]) = Inr rs"
    by (auto simp: and_then_eq_Inr)
  from r have "is_tsunami_record r" by (rule tsunami_record_keys)
  with Cons.prems(2) have "list_all is_tsunami_record (acc @ [r])" by simp
  with loop show ?case by (rule Cons.IH)
qed

lemma fetch_tsunami_data_records:
  assumes "fetch_tsunami_data up = Inr tsunami_events"
  shows "list_all is_tsunami_record tsunami_events"
proof (cases up)
  case TransportError
  with assms show ?thesis by (simp add: fetch_tsunami_data_def)
next
  case Timeout
  with assms show ?thesis by (simp add: fetch_tsunami_data_def)
next
  case (Response status_code body)
  show ?thesis
  proof (cases "raise_for_status status_code \<or> body = None")
    case True
    with assms Response show ?thesis
      by (auto simp: fetch_tsunami_data_def split: if_splits)
  next
    case False
    with assms Response obtain events where "tsunami_loop events [] = Inr tsunami_events"
      by (auto simp: fetch_tsunami_data_def and_then_eq_Inr)
    then show ?thesis by (rule tsunami_loop_records) simp
  qed
qed

lemma has_location_record:
  "is_tsunami_record r \<Longrightarrow> has_location r = Inr (located r)"
  by (cases r)
    (auto simp: is_tsunami_record_def tsunami_keys_def has_location_def located_def)

lemma tsunami_location_record:
  "is_tsunami_record r \<Longrightarrow> \<exists>l. tsunami_location r = Inr l"
  by (cases r) (auto simp: is_tsunami_record_def tsunami_keys_def tsunami_location_def)

lemma tsunami_popup_record:
  "is_tsunami_record r \<Longrightarrow> \<exists>p. tsunami_popup r = Inr p"
  by (cases r) (auto simp: is_tsunami_record_def tsunami_keys_def tsunami_popup_def)

lemma valid_events_records:
  "list_all is_tsunami_record rs \<Longrightarrow> valid_events rs = Inr (filter located rs)"
  by (induction rs) (simp_all add: has_location_record)

lemma tsunamis_marker_colors_records:
  assumes recs: "list_all is_tsunami_record tsunami_events"
  shows "tsunamis_marker_colors str_float tsunami_events
    = comprehension (tsunami_marker_color str_float) (filter located tsunami_events)"
proof -
  let ?valid = "filter located tsunami_events"
  have v: "valid_events tsunami_events = Inr ?valid"
    using recs by (rule valid_events_records)
  from recs have all: "\<And>r. r \<in> set ?valid \<Longrightarrow> is_tsunami_record r"
    by (simp add: list_all_iff)
  from all obtain locations where l: "comprehension tsunami_location ?valid = Inr locations"
    using comprehension_total [of ?valid tsunami_location] tsunami_location_record by blast
  from all obtain popups where p: "comprehension tsunami_popup ?valid = Inr popups"
    using comprehension_total [of ?valid tsunami_popup] tsunami_popup_record by blast
  show ?thesis
  proof (cases "tsunami_events = []")
    case True
    then show ?thesis by (simp add: tsunamis_marker_colors_def)
  next
    case False
    with v l p show ?thesis by (simp add: tsunamis_marker_colors_def)
  qed
qed

lemmas tsunami_eval = fetch_tsunami_data_def raise_for_status_def tsunami_record_def
  located_def tsunami_marker_color_def in_float_range_def

lemma eleven_quakes:
  "fetch_earthquake_data (Response 200 (Some (JObj [(''features'',
      JArr (replicate 11 sample_quake))])))
   = Inr (replicate 10 (JObj [(''place'', JStr ''Los Angeles''), (''magnitude'', JNum 5.2),
                              (''latitude'', JNum 34.0), (''longitude'', JNum (-118.2))]))"
  by (simp add: fetch_earthquake_data_def quake_record_def sample_quake_def numeral_eq_Suc)


section \<open>Properties of the feeds\<close>

text \<open>
  C1, as amended. The seismic list never has more than 10 records. The wildfire fetch
  cuts the upstream events to the first 10 before the fan-out and returns at most one
  record per geometry point of those events, so that its list can be longer than 10.
\<close>

theorem fetch_lengths:
  "(fetch_earthquake_data up = Inr quakes \<longrightarrow> length quakes \<le> 10) \<and>
   (fetch_wildfire_data (Response 200 (Some fire_data)) = Inr fires \<and>
      py_get fire_data ''events'' (JArr []) = Inr (JArr events) \<longrightarrow>
        length fires \<le> sum_list (map (\<lambda>e. length (geometry_points e)) (take 10 events)))"
proof -
  have quake: "fetch_earthquake_data up = Inr quakes \<longrightarrow> length quakes \<le> 10"
  proof
    assume ok: "fetch_earthquake_data up = Inr quakes"
    show "length quakes \<le> 10"
    proof (cases up)
      case TransportError
      with ok show ?thesis by (simp add: fetch_earthquake_data_def)
    next
      case Timeout
      with ok show ?thesis by (simp add: fetch_earthquake_data_def)
    next
      case (Response status_code body)
      show ?thesis
      proof (cases "status_code \<noteq> 200 \<or> body = None")
        case True
        with ok Response show ?thesis
          by (auto simp: fetch_earthquake_data_def split: if_splits)
      next
        case False
        then obtain d where d: "status_code = 200" "body = Some d" by auto
        with ok Response obtain e f qs where
          "py_slice e 10 = Inr f" "py_iter f = Inr qs" "earthquake_loop qs [] = Inr quakes"
          by (auto simp: fetch_earthquake_data_def and_then_eq_Inr)
        with py_slice_iter_length [of e 10 f qs] earthquake_loop_length [of qs "[]" quakes]
        show ?thesis by simp
      qed
    qed
  qed
  have fire: "fetch_wildfire_data (Response 200 (Some fire_data)) = Inr fires \<and>
      py_get fire_data ''events'' (JArr []) = Inr (JArr events) \<longrightarrow>
        length fires \<le> sum_list (map (\<lambda>e. length (geometry_points e)) (take 10 events))"
  proof
    assume a: "fetch_wildfire_data (Response 200 (Some fire_data)) = Inr fires \<and>
      py_get fire_data ''events'' (JArr []) = Inr (JArr events)"
    then have "wildfire_loop (take 10 events) [] = Inr fires"
      by (auto simp: fetch_wildfire_data_def)
    from wildfire_loop_length [OF this]
    show "length fires \<le> sum_list (map (\<lambda>e. length (geometry_points e)) (take 10 events))"
      by simp
  qed
  from quake fire show ?thesis by blast
qed

theorem fetch_lengths_witness:
  "(\<exists>quakes. fetch_earthquake_data (Response 200 (Some (JObj [(''features'',
        JArr (replicate 11 sample_quake))]))) = Inr quakes \<and> length quakes \<le> 10) \<and>
   (\<exists>fires. fetch_wildfire_data (Response 200 (Some (JObj [(''events'',
        JArr (replicate 11 two_point_fire))]))) = Inr fires \<and> length fires \<le> 20)"
proof -
  let ?qd = "JObj [(''features'', JArr (replicate 11 sample_quake))]"
  let ?fd = "JObj [(''events'', JArr (replicate 11 two_point_fire))]"
  obtain quakes where q: "fetch_earthquake_data (Response 200 (Some ?qd)) = Inr quakes"
    using eleven_quakes by blast
  obtain fires where f: "fetch_wildfire_data (Response 200 (Some ?fd)) = Inr fires"
    by (simp add: fetch_wildfire_data_def wildfire_record_def wildfire_source_def
        two_point_fire_def numeral_eq_Suc)
  have ge: "py_get ?fd ''events'' (JArr []) = Inr (JArr (replicate 11 two_point_fire))"
    by simp
  have gp: "sum_list (map (\<lambda>e. length (geometry_points e)) (take 10 (replicate 11 two_point_fire)))
      = 20"
    by (simp add: geometry_points_def two_point_fire_def numeral_eq_Suc)
  note t = fetch_lengths [where up = "Response 200 (Some ?qd)" and quakes = quakes
      and fire_data = ?fd and fires = fires and events = "replicate 11 two_point_fire"]
  from t q have a: "length quakes \<le> 10" by blast
  from t f ge have "length fires
      \<le> sum_list (map (\<lambda>e. length (geometry_points e)) (take 10 (replicate 11 two_point_fire)))"
    by blast
  with gp have b: "length fires \<le> 20" by simp
  from q a f b show ?thesis by blast
qed

text \<open>
  C1 as stated fails on the wildfire feed: of 11 upstream events with two points each,
  the first 10 are kept and give 20 records.
\<close>

theorem fetch_wildfire_data_twenty:
  "map_sum id length (fetch_wildfire_data (Response 200 (Some (JObj [(''events'',
      JArr (replicate 11 two_point_fire))])))) = Inr 20"
  by (simp add: fetch_wildfire_data_def wildfire_record_def wildfire_source_def
      two_point_fire_def numeral_eq_Suc)

text \<open>
  C2. At a transport error the seismic and the wildfire fetch functions do not return
  the empty list: \<^verbatim>\<open>requests.get\<close> is called outside their \<^verbatim>\<open>try\<close>, so its
  exception leaves the function. The cyclone and the tsunami fetch functions, which wrap
  the call, return the empty list on the same input.
\<close>

theorem fetch_transport_error:
  "fetch_earthquake_data TransportError = Inl RequestException \<and>
   fetch_wildfire_data TransportError = Inl RequestException \<and>
   fetch_hurricane_data TransportError = Inr [] \<and>
   fetch_tsunami_data TransportError = Inr []"
  by (simp add: fetch_earthquake_data_def fetch_wildfire_data_def fetch_hurricane_data_def
      fetch_tsunami_data_def)

text \<open>
  C3, as amended. A fetch attempt that ends in an exception leaves the cache entry as it
  was, and so does a call made while the entry is less than 600 seconds old (the
  function is not run). Any other call stores the list that the fetch function returned,
  with the time of the call. The failures that a fetch function absorbs by returning the
  empty list (a status other than 200 or an undecodable body for the seismic and
  wildfire feeds; a transport error, a timeout, an error status or an undecodable body
  for the cyclone and tsunami feeds) are stored in the same way.
\<close>

theorem cache_data_entry:
  "(fetch up = Inl e \<longrightarrow> snd (cache_data fetch now up entry) = entry) \<and>
   (entry = Some (events, fetchedAt) \<and> now - fetchedAt < 600 \<longrightarrow>
      cache_data fetch now up entry = (Inr events, entry)) \<and>
   (fetch up = Inr new \<and>
      (entry = None \<or> (\<exists>events fetchedAt. entry = Some (events, fetchedAt) \<and>
          \<not> now - fetchedAt < 600)) \<longrightarrow>
      cache_data fetch now up entry = (Inr new, Some (new, now))) \<and>
   fetch_earthquake_data (Response 500 body) = Inr [] \<and>
   fetch_earthquake_data (Response 200 None) = Inr [] \<and>
   fetch_wildfire_data (Response 500 body) = Inr [] \<and>
   fetch_wildfire_data (Response 200 None) = Inr [] \<and>
   fetch_hurricane_data TransportError = Inr [] \<and>
   fetch_hurricane_data Timeout = Inr [] \<and>
   fetch_hurricane_data (Response 500 body) = Inr [] \<and>
   fetch_hurricane_data (Response 200 None) = Inr [] \<and>
   fetch_tsunami_data TransportError = Inr [] \<and>
   fetch_tsunami_data Timeout = Inr [] \<and>
   fetch_tsunami_data (Response 500 body) = Inr [] \<and>
   fetch_tsunami_data (Response 200 None) = Inr []"
proof -
  have raised: "fetch up = Inl e \<longrightarrow> snd (cache_data fetch now up entry) = entry"
    by (cases entry) (auto simp: cache_data_def run_and_store_def ttl_def)
  have fresh: "entry = Some (events, fetchedAt) \<and> now - fetchedAt < 600 \<longrightarrow>
      cache_data fetch now up entry = (Inr events, entry)"
    by (auto simp: cache_data_def ttl_def)
  have stored: "fetch up = Inr new \<and>
      (entry = None \<or> (\<exists>events fetchedAt. entry = Some (events, fetchedAt) \<and>
          \<not> now - fetchedAt < 600)) \<longrightarrow>
      cache_data fetch now up entry = (Inr new, Some (new, now))"
    by (auto simp: cache_data_def run_and_store_def ttl_def)
  have absorbed: "fetch_earthquake_data (Response 500 body) = Inr [] \<and>
   fetch_earthquake_data (Response 200 None) = Inr [] \<and>
   fetch_wildfire_data (Response 500 body) = Inr [] \<and>
   fetch_wildfire_data (Response 200 None) = Inr [] \<and>
   fetch_hurricane_data TransportError = Inr [] \<and>
   fetch_hurricane_data Timeout = Inr [] \<and>
   fetch_hurricane_data (Response 500 body) = Inr [] \<and>
   fetch_hurricane_data (Response 200 None) = Inr [] \<and>
   fetch_tsunami_data TransportError = Inr [] \<and>
   fetch_tsunami_data Timeout = Inr [] \<and>
   fetch_tsunami_data (Response 500 body) = Inr [] \<and>
   fetch_tsunami_data (Response 200 None) = Inr []"
    by (simp add: fetch_earthquake_data_def fetch_wildfire_data_def fetch_hurricane_data_def
        fetch_tsunami_data_def raise_for_status_def)
  from raised fresh stored absorbed show ?thesis by blast
qed

theorem cache_data_entry_witness:
  "snd (cache_data fetch_earthquake_data 700 TransportError (Some ([JObj []], 0)))
     = Some ([JObj []], 0) \<and>
   cache_data fetch_tsunami_data 599 TransportError (Some ([JObj []], 0))
     = (Inr [JObj []], Some ([JObj []], 0)) \<and>
   cache_data fetch_tsunami_data 700 TransportError (Some ([JObj []], 0))
     = (Inr [], Some ([], 700)) \<and>
   cache_data fetch_tsunami_data 700 TransportError None = (Inr [], Some ([], 700))"
proof -
  have e: "fetch_earthquake_data TransportError = Inl RequestException"
    by (simp add: fetch_earthquake_data_def)
  have stale: "\<not> (700::real) - 0 < 600" and fresh: "(599::real) - 0 < 600" by simp_all
  from cache_data_entry [where fetch = fetch_earthquake_data and up = TransportError
      and e = RequestException and now = 700 and entry = "Some ([JObj []], 0)"] e
  have a: "snd (cache_data fetch_earthquake_data 700 TransportError (Some ([JObj []], 0)))
     = Some ([JObj []], 0)"
    by blast
  from cache_data_entry [where fetch = fetch_tsunami_data and up = TransportError and now = 599
      and entry = "Some ([JObj []], 0)" and events = "[JObj []]" and fetchedAt = 0] fresh
  have b: "cache_data fetch_tsunami_data 599 TransportError (Some ([JObj []], 0))
     = (Inr [JObj []], Some ([JObj []], 0))"
    by blast
  note t = cache_data_entry [where fetch = fetch_tsunami_data and up = TransportError
      and now = 700 and entry = "Some ([JObj []], 0)" and new = "[]"]
  from t have t1: "fetch_tsunami_data TransportError = Inr []" by blast
  from t t1 stale
  have c: "cache_data fetch_tsunami_data 700 TransportError (Some ([JObj []], 0))
     = (Inr [], Some ([], 700))"
    by auto
  from cache_data_entry [where fetch = fetch_tsunami_data and up = TransportError
      and now = 700 and entry = None and new = "[]"] t1
  have d: "cache_data fetch_tsunami_data 700 TransportError None = (Inr [], Some ([], 700))"
    by auto
  from a b c d show ?thesis by blast
qed

text \<open>
  C3 as stated fails: with an entry fetched at time 0, a tsunami fetch at time 700 that
  meets a transport error replaces the entry by the empty list.
\<close>

theorem cache_data_failure_replaces_entry:
  "cache_data fetch_tsunami_data 700 TransportError (Some ([JObj [(''location'', JStr ''Sumatra'')]], 0))
     = (Inr [], Some ([], 700))"
  by (simp add: cache_data_def run_and_store_def ttl_def fetch_tsunami_data_def)

text \<open>
  C4. A malformed record is fatal to the seismic fetch: a well-formed earthquake followed
  by one without \<^verbatim>\<open>geometry\<close> gives a KeyError instead of the well-formed record,
  which the same payload without the malformed record returns. The loop indexes
  \<^verbatim>\<open>quake["geometry"]\<close> and \<^verbatim>\<open>quake["properties"]\<close> directly, outside any
  \<^verbatim>\<open>try\<close>, where the three other fetch functions read with \<^verbatim>\<open>.get\<close> and a default.
\<close>

theorem fetch_earthquake_data_malformed_record:
  "fetch_earthquake_data (Response 200 (Some (JObj [(''features'',
        JArr [sample_quake, JObj [(''properties'', JObj [])]])]))) = Inl KeyError \<and>
   fetch_earthquake_data (Response 200 (Some (JObj [(''features'', JArr [sample_quake])])))
     = Inr [JObj [(''place'', JStr ''Los Angeles''), (''magnitude'', JNum 5.2),
                  (''latitude'', JNum 34.0), (''longitude'', JNum (-118.2))]]"
  by (simp add: fetch_earthquake_data_def quake_record_def sample_quake_def)

text \<open>
  C5, as amended. A wildfire event that is regular (see \<open>regular_event\<close>) and is among
  the events that the loop runs through adds exactly one record per geometry point with
  two coordinates, in order, all with the title and the source of the event; alone in a
  payload it gives exactly these records. When each of its \<open>N\<close> points has two
  coordinates that is \<open>N\<close> records: three for three points.
\<close>

theorem wildfire_fan_out:
  "regular_event event \<longrightarrow>
     wildfire_loop (event # rest) wildfire_list
       = wildfire_loop rest (wildfire_list @ event_records event) \<and>
     fetch_wildfire_data (Response 200 (Some (JObj [(''events'', JArr [event])])))
       = Inr (event_records event) \<and>
     length (event_records event) = length (filter two_coordinates (geometry_points event)) \<and>
     (list_all two_coordinates (geometry_points event) \<longrightarrow>
        length (event_records event) = length (geometry_points event)) \<and>
     (\<forall>r\<in>set (event_records event).
        py_item r ''title'' = Inr (event_title event) \<and>
        py_item r ''source'' = Inr (event_source event)) \<and>
     py_get event ''title'' (JStr ''Wildfire'') = Inr (event_title event) \<and>
     wildfire_source event = Inr (event_source event)"
proof
  assume reg: "regular_event event"
  have step: "wildfire_loop (event # rest) wildfire_list
       = wildfire_loop rest (wildfire_list @ event_records event)"
    using reg by (rule wildfire_loop_step)
  have "wildfire_loop [event] [] = Inr ([] @ concat (map event_records [event]))"
    using reg by (intro wildfire_loop_regular) simp
  then have fetch: "fetch_wildfire_data (Response 200 (Some (JObj [(''events'', JArr [event])])))
       = Inr (event_records event)"
    by (simp add: fetch_wildfire_data_def)
  have len: "length (event_records event) = length (filter two_coordinates (geometry_points event))"
    by (simp add: event_records_def)
  have all: "list_all two_coordinates (geometry_points event) \<longrightarrow>
        length (event_records event) = length (geometry_points event)"
    by (simp add: event_records_def list_all_iff)
  have shared: "\<forall>r\<in>set (event_records event).
        py_item r ''title'' = Inr (event_title event) \<and>
        py_item r ''source'' = Inr (event_source event)"
    using event_records_shared by blast
  from reg have ts: "py_get event ''title'' (JStr ''Wildfire'') = Inr (event_title event) \<and>
     wildfire_source event = Inr (event_source event)"
    by (auto elim: regular_eventD)
  from step fetch len all shared ts
  show "wildfire_loop (event # rest) wildfire_list
       = wildfire_loop rest (wildfire_list @ event_records event) \<and>
     fetch_wildfire_data (Response 200 (Some (JObj [(''events'', JArr [event])])))
       = Inr (event_records event) \<and>
     length (event_records event) = length (filter two_coordinates (geometry_points event)) \<and>
     (list_all two_coordinates (geometry_points event) \<longrightarrow>
        length (event_records event) = length (geometry_points event)) \<and>
     (\<forall>r\<in>set (event_records event).
        py_item r ''title'' = Inr (event_title event) \<and>
        py_item r ''source'' = Inr (event_source event)) \<and>
     py_get event ''title'' (JStr ''Wildfire'') = Inr (event_title event) \<and>
     wildfire_source event = Inr (event_source event)"
    by blast
qed

theorem wildfire_fan_out_witness:
  "regular_event three_point_fire \<and>
   list_all two_coordinates (geometry_points three_point_fire) \<and>
   length (geometry_points three_point_fire) = 3 \<and>
   (\<exists>fires. fetch_wildfire_data (Response 200 (Some (JObj [(''events'', JArr [three_point_fire])])))
       = Inr fires \<and> length fires = 3 \<and>
      (\<forall>r\<in>set fires. py_item r ''title'' = Inr (JStr ''Creek Fire'') \<and>
         py_item r ''source'' = Inr (JStr ''https://inciweb.example/1'')))"
proof -
  have reg: "regular_event three_point_fire"
    by (simp add: three_point_fire_def fire_eval)
  have two: "list_all two_coordinates (geometry_points three_point_fire)"
    by (simp add: three_point_fire_def fire_eval)
  have three: "length (geometry_points three_point_fire) = 3"
    by (simp add: three_point_fire_def fire_eval)
  have title: "event_title three_point_fire = JStr ''Creek Fire''"
    by (simp add: three_point_fire_def fire_eval)
  have source: "event_source three_point_fire = JStr ''https://inciweb.example/1''"
    by (simp add: three_point_fire_def fire_eval)
  note t = wildfire_fan_out [of three_point_fire]
  from t reg have f: "fetch_wildfire_data
      (Response 200 (Some (JObj [(''events'', JArr [three_point_fire])])))
       = Inr (event_records three_point_fire)"
    by blast
  from t reg have "list_all two_coordinates (geometry_points three_point_fire) \<longrightarrow>
      length (event_records three_point_fire) = length (geometry_points three_point_fire)"
    by blast
  with two three have l: "length (event_records three_point_fire) = 3"
    by simp
  from t reg have "\<forall>r\<in>set (event_records three_point_fire).
      py_item r ''title'' = Inr (event_title three_point_fire) \<and>
      py_item r ''source'' = Inr (event_source three_point_fire)"
    by blast
  with title source
  have s: "\<forall>r\<in>set (event_records three_point_fire).
      py_item r ''title'' = Inr (JStr ''Creek Fire'') \<and>
      py_item r ''source'' = Inr (JStr ''https://inciweb.example/1'')"
    by simp
  from reg two three f l s show ?thesis by blast
qed

text \<open>
  C5 as stated fails: an event with three geometry points, the second one with an
  altitude as third coordinate, gives two records.
\<close>

theorem wildfire_point_skipped:
  "length (geometry_points mixed_fire) = 3 \<and>
   fetch_wildfire_data (Response 200 (Some (JObj [(''events'', JArr [mixed_fire])])))
     = Inr [JObj [(''title'', JStr ''Creek Fire''), (''latitude'', JNum 37.2),
                  (''longitude'', JNum (-119.3)), (''source'', JStr ''No source available'')],
            JObj [(''title'', JStr ''Creek Fire''), (''latitude'', JNum 37.4),
                  (''longitude'', JNum (-119.5)), (''source'', JStr ''No source available'')]]"
  by (simp add: mixed_fire_def geometry_points_def fetch_wildfire_data_def wildfire_record_def
      wildfire_source_def)



text \<open>
  C7, as amended. For a cyclone record whose category is a string, the colour of the
  marker is looked up by that label in the table of seven entries; every other string
  gives blue, and so does a category that is a number, a bool or \<^verbatim>\<open>None\<close>. On these
  categories the lookup always gives a colour.
\<close>

theorem hurricane_marker_color_table:
  "hurricane_marker_color (JStr ''Tropical Depression'') = Inr ''green'' \<and>
   hurricane_marker_color (JStr ''Tropical Storm'') = Inr ''orange'' \<and>
   hurricane_marker_color (JStr ''Category 1'') = Inr ''yellow'' \<and>
   hurricane_marker_color (JStr ''Category 2'') = Inr ''gold'' \<and>
   hurricane_marker_color (JStr ''Category 3'') = Inr ''red'' \<and>
   hurricane_marker_color (JStr ''Category 4'') = Inr ''darkred'' \<and>
   hurricane_marker_color (JStr ''Category 5'') = Inr ''purple'' \<and>
   (label \<notin> {''Tropical Depression'', ''Tropical Storm'', ''Category 1'', ''Category 2'',
       ''Category 3'', ''Category 4'', ''Category 5''} \<longrightarrow>
      hurricane_marker_color (JStr label) = Inr ''blue'') \<and>
   (\<exists>color. hurricane_marker_color (JStr label) = Inr color) \<and>
   hurricane_marker_color (JNum x) = Inr ''blue'' \<and>
   hurricane_marker_color (JBool b) = Inr ''blue'' \<and>
   hurricane_marker_color JNull = Inr ''blue''"
  by (simp add: category_colors_def)

theorem hurricane_marker_color_table_witness:
  "''Unknown Category'' \<notin> {''Tropical Depression'', ''Tropical Storm'', ''Category 1'',
       ''Category 2'', ''Category 3'', ''Category 4'', ''Category 5''} \<and>
   hurricane_marker_color (JStr ''Unknown Category'') = Inr ''blue''"
  using hurricane_marker_color_table [of "''Unknown Category''"] by simp

text \<open>
  C7 as stated fails: a category that is a list is copied into the record by the fetch,
  and the lookup with it raises TypeError, a list being unhashable.
\<close>

theorem hurricane_marker_color_unhashable:
  "fetch_hurricane_data (Response 200 (Some (JObj [(''features'', JArr
      [JObj [(''properties'', JObj [(''name'', JStr ''Ida''),
                                    (''category'', JArr [JStr ''Category 4''])])]])])))
   = Inr [JObj [(''name'', JStr ''Ida''), (''latitude'', JNum 0), (''longitude'', JNum 0),
                (''advisory'', JStr ''No advisory available.''),
                (''wind_speed'', JStr ''Unknown Speed''),
                (''category'', JArr [JStr ''Category 4''])]] \<and>
   hurricane_marker_color (JArr [JStr ''Category 4'']) = Inl TypeError"
  by (simp add: fetch_hurricane_data_def raise_for_status_def hurricane_record_def)

text \<open>
  C8, as amended. The page colours the fetched tsunami records that have a location
  (latitude and longitude not \<^verbatim>\<open>None\<close>), in the order of the feed, and no other
  record. An upstream event without \<^verbatim>\<open>earthquakeMagnitude\<close> becomes a record whose
  magnitude is the string \<^verbatim>\<open>N/A\<close>, and such a record is blue; an event with a
  magnitude keeps it, and a record whose magnitude is a number \<open>m\<close> in the range of the
  floats is darkred when \<open>m \<ge> 8.0\<close>, red when \<open>6.5 \<le> m < 8.0\<close>, orange when
  \<open>5.0 \<le> m < 6.5\<close> and yellow otherwise. The absent magnitude is not the number
  zero, which is yellow.
\<close>

theorem tsunami_marker_color_bands:
  "(map_of event ''earthquakeMagnitude'' = None \<longrightarrow>
      (\<exists>r. tsunami_record (JObj event) = Inr (JObj r) \<and>
           map_of r ''magnitude'' = Some (JStr ''N/A''))) \<and>
   (map_of event ''earthquakeMagnitude'' = Some x \<longrightarrow>
      (\<exists>r. tsunami_record (JObj event) = Inr (JObj r) \<and> map_of r ''magnitude'' = Some x)) \<and>
   (fetch_tsunami_data up = Inr tsunami_events \<longrightarrow>
      (tsunamis_marker_colors str_float tsunami_events = Inr colors \<longleftrightarrow>
         list_all2 (\<lambda>r color. tsunami_marker_color str_float r = Inr color)
           (filter located tsunami_events) colors)) \<and>
   (map_of r ''magnitude'' = Some (JStr ''N/A'') \<longrightarrow>
      tsunami_marker_color str_float (JObj r) = Inr ''blue'') \<and>
   (map_of r ''magnitude'' = Some (JNum m) \<and> \<bar>m\<bar> < 2 ^ 1024 - 2 ^ 970 \<longrightarrow>
      (\<exists>color. tsunami_marker_color str_float (JObj r) = Inr color \<and>
         (8.0 \<le> m \<longrightarrow> color = ''darkred'') \<and>
         (6.5 \<le> m \<and> m < 8.0 \<longrightarrow> color = ''red'') \<and>
         (5.0 \<le> m \<and> m < 6.5 \<longrightarrow> color = ''orange'') \<and>
         (m < 5.0 \<longrightarrow> color = ''yellow'')))"
proof -
  have absent: "map_of event ''earthquakeMagnitude'' = None \<longrightarrow>
      (\<exists>r. tsunami_record (JObj event) = Inr (JObj r) \<and>
           map_of r ''magnitude'' = Some (JStr ''N/A''))"
    by (simp add: tsunami_record_def)
  have present: "map_of event ''earthquakeMagnitude'' = Some x \<longrightarrow>
      (\<exists>r. tsunami_record (JObj event) = Inr (JObj r) \<and> map_of r ''magnitude'' = Some x)"
    by (simp add: tsunami_record_def)
  have page: "fetch_tsunami_data up = Inr tsunami_events \<longrightarrow>
      (tsunamis_marker_colors str_float tsunami_events = Inr colors \<longleftrightarrow>
         list_all2 (\<lambda>r color. tsunami_marker_color str_float r = Inr color)
           (filter located tsunami_events) colors)"
  proof
    assume "fetch_tsunami_data up = Inr tsunami_events"
    then have "list_all is_tsunami_record tsunami_events"
      by (rule fetch_tsunami_data_records)
    then have "tsunamis_marker_colors str_float tsunami_events
      = comprehension (tsunami_marker_color str_float) (filter located tsunami_events)"
      by (rule tsunamis_marker_colors_records)
    then show "tsunamis_marker_colors str_float tsunami_events = Inr colors \<longleftrightarrow>
         list_all2 (\<lambda>r color. tsunami_marker_color str_float r = Inr color)
           (filter located tsunami_events) colors"
      by (simp add: comprehension_eq_Inr)
  qed
  have blue: "map_of r ''magnitude'' = Some (JStr ''N/A'') \<longrightarrow>
      tsunami_marker_color str_float (JObj r) = Inr ''blue''"
    by (simp add: tsunami_marker_color_def)
  have bands: "map_of r ''magnitude'' = Some (JNum m) \<and> \<bar>m\<bar> < 2 ^ 1024 - 2 ^ 970 \<longrightarrow>
      (\<exists>color. tsunami_marker_color str_float (JObj r) = Inr color \<and>
         (8.0 \<le> m \<longrightarrow> color = ''darkred'') \<and>
         (6.5 \<le> m \<and> m < 8.0 \<longrightarrow> color = ''red'') \<and>
         (5.0 \<le> m \<and> m < 6.5 \<longrightarrow> color = ''orange'') \<and>
         (m < 5.0 \<longrightarrow> color = ''yellow''))"
    by (simp add: tsunami_marker_color_def in_float_range_def)
  from absent present page blue bands show ?thesis by blast
qed

theorem tsunami_marker_color_bands_witness:
  "(\<exists>tsunami_events. fetch_tsunami_data (Response 200 (Some (JArr sample_tsunamis)))
        = Inr tsunami_events \<and> length tsunami_events = 3 \<and>
      tsunamis_marker_colors (\<lambda>s. None) tsunami_events = Inr [''blue'', ''darkred'']) \<and>
   (\<exists>r. tsunami_record (JObj [(''locationName'', JStr ''Sumatra'')]) = Inr (JObj r) \<and>
        map_of r ''magnitude'' = Some (JStr ''N/A'') \<and>
        tsunami_marker_color (\<lambda>s. None) (JObj r) = Inr ''blue'') \<and>
   (\<exists>r. tsunami_record (JObj [(''earthquakeMagnitude'', JNum 9.1)]) = Inr (JObj r) \<and>
        map_of r ''magnitude'' = Some (JNum 9.1) \<and>
        tsunami_marker_color (\<lambda>s. None) (JObj r) = Inr ''darkred'') \<and>
   tsunami_marker_color (\<lambda>s. None) (JObj [(''magnitude'', JNum 7)]) = Inr ''red'' \<and>
   tsunami_marker_color (\<lambda>s. None) (JObj [(''magnitude'', JNum 5)]) = Inr ''orange'' \<and>
   tsunami_marker_color (\<lambda>s. None) (JObj [(''magnitude'', JNum 0)]) = Inr ''yellow''"
proof -
  obtain tsunami_events where
    f: "fetch_tsunami_data (Response 200 (Some (JArr sample_tsunamis))) = Inr tsunami_events"
    and n: "length tsunami_events = 3"
    and c: "list_all2 (\<lambda>r color. tsunami_marker_color (\<lambda>s. None) r = Inr color)
        (filter located tsunami_events) [''blue'', ''darkred'']"
    by (simp add: sample_tsunamis_def tsunami_eval)
  from tsunami_marker_color_bands [where up = "Response 200 (Some (JArr sample_tsunamis))"
      and tsunami_events = tsunami_events and str_float = "\<lambda>s. None"
      and colors = "[''blue'', ''darkred'']"] f c
  have page: "tsunamis_marker_colors (\<lambda>s. None) tsunami_events = Inr [''blue'', ''darkred'']"
    by blast
  have absent: "map_of [(''locationName'', JStr ''Sumatra'')] ''earthquakeMagnitude'' = None"
    by simp
  from tsunami_marker_color_bands [where event = "[(''locationName'', JStr ''Sumatra'')]"] absent
  obtain r where r: "tsunami_record (JObj [(''locationName'', JStr ''Sumatra'')]) = Inr (JObj r)"
      "map_of r ''magnitude'' = Some (JStr ''N/A'')"
    by blast
  from tsunami_marker_color_bands [where r = r and str_float = "\<lambda>s. None"] r(2)
  have blue: "tsunami_marker_color (\<lambda>s. None) (JObj r) = Inr ''blue''"
    by blast
  have present: "map_of [(''earthquakeMagnitude'', JNum 9.1)] ''earthquakeMagnitude''
      = Some (JNum 9.1)"
    by simp
  from tsunami_marker_color_bands [where event = "[(''earthquakeMagnitude'', JNum 9.1)]"
      and x = "JNum 9.1"] present
  obtain q where q: "tsunami_record (JObj [(''earthquakeMagnitude'', JNum 9.1)]) = Inr (JObj q)"
      "map_of q ''magnitude'' = Some (JNum 9.1)"
    by blast
  have range: "\<bar>9.1::real\<bar> < 2 ^ 1024 - 2 ^ 970" "\<bar>7::real\<bar> < 2 ^ 1024 - 2 ^ 970"
    "\<bar>5::real\<bar> < 2 ^ 1024 - 2 ^ 970" "\<bar>0::real\<bar> < 2 ^ 1024 - 2 ^ 970"
    by simp_all
  from tsunami_marker_color_bands [where r = q and str_float = "\<lambda>s. None" and m = "9.1"]
    q(2) range(1)
  have darkred: "tsunami_marker_color (\<lambda>s. None) (JObj q) = Inr ''darkred''"
    by auto
  from tsunami_marker_color_bands [where r = "[(''magnitude'', JNum 7)]"
      and str_float = "\<lambda>s. None" and m = 7] range(2)
  have red: "tsunami_marker_color (\<lambda>s. None) (JObj [(''magnitude'', JNum 7)]) = Inr ''red''"
    by auto
  from tsunami_marker_color_bands [where r = "[(''magnitude'', JNum 5)]"
      and str_float = "\<lambda>s. None" and m = 5] range(3)
  have orange: "tsunami_marker_color (\<lambda>s. None) (JObj [(''magnitude'', JNum 5)]) = Inr ''orange''"
    by auto
  from tsunami_marker_color_bands [where r = "[(''magnitude'', JNum 0)]"
      and str_float = "\<lambda>s. None" and m = 0] range(4)
  have yellow: "tsunami_marker_color (\<lambda>s. None) (JObj [(''magnitude'', JNum 0)]) = Inr ''yellow''"
    by auto
  from f n page r blue q darkred red orange yellow show ?thesis by blast
qed

text \<open>
  C8 as stated fails: a record without a location is given no colour, whatever its
  magnitude; here the magnitude is absent and the list of colours is empty.
\<close>

theorem tsunami_unlocated_record_no_color:
  "fetch_tsunami_data (Response 200 (Some (JArr [JObj [(''locationName'', JStr ''Krakatau'')]])))
     = Inr [JObj [(''location'', JStr ''Krakatau''), (''latitude'', JNull), (''longitude'', JNull),
                  (''magnitude'', JStr ''N/A''), (''depth'', JStr ''N/A''),
                  (''year'', JStr ''Unknown Year''), (''cause'', JStr ''No Advisory Available'')]] \<and>
   tsunamis_marker_colors (\<lambda>s. None)
     [JObj [(''location'', JStr ''Krakatau''), (''latitude'', JNull), (''longitude'', JNull),
            (''magnitude'', JStr ''N/A''), (''depth'', JStr ''N/A''),
            (''year'', JStr ''Unknown Year''), (''cause'', JStr ''No Advisory Available'')]]
     = Inr []"
  by (simp add: fetch_tsunami_data_def raise_for_status_def tsunami_record_def
      tsunamis_marker_colors_def has_location_def)

text \<open>
  An integer magnitude beyond the range of the floats makes \<^verbatim>\<open>float\<close> raise.
\<close>

lemma tsunami_marker_color_overflow:
  "tsunami_marker_color str_float (JObj [(''magnitude'', JNum (10 ^ 400))]) = Inl OverflowError"
  by (simp add: tsunami_marker_color_def in_float_range_def)





section \<open>Properties of the password policy\<close>

lemma failed_requirements_empty:
  "failed_requirements p = [] \<longleftrightarrow>
     list_ex (in_range CHR ''A'' CHR ''Z'') p \<and> list_ex (in_range CHR ''a'' CHR ''z'') p \<and>
     list_ex (in_range CHR ''0'' CHR ''9'') p \<and> list_ex (\<lambda>c. c \<in> set SPECIAL_CHARS) p"
  by (simp add: failed_requirements_def re_search_def REQUIRE_UPPERCASE_def
      REQUIRE_LOWERCASE_def REQUIRE_NUMBERS_def REQUIRE_SPECIAL_CHARS_def)

lemma set_SPECIAL_CHARS:
  "set SPECIAL_CHARS =
     {CHR ''!'', CHR ''@'', CHR ''#'', CHR ''$'', CHR ''%'', CHR ''^'', CHR ''&'', CHR ''*'',
      CHR ''('', CHR '')'', CHR '','', CHR ''.'', CHR ''?'', CHR 0x22, CHR '':'', CHR ''{'',
      CHR ''}'', CHR ''|'', CHR ''<'', CHR ''>''}"
  by (simp add: SPECIAL_CHARS_def)

text \<open>
  C10. \<open>is_password_strong p\<close> answers \<open>True\<close> exactly when \<open>p\<close> has at least 8
  characters and contains an uppercase letter \<open>A..Z\<close>, a lowercase letter \<open>a..z\<close>, a
  digit \<open>0..9\<close> and one of the twenty special characters. When it answers \<open>False\<close>
  the message names what failed: the length requirement when \<open>p\<close> is shorter than 8,
  and otherwise exactly the character requirements that \<open>p\<close> does not meet, joined
  after \<open>Password must contain:\<close>.
\<close>

theorem is_password_strong_iff:
  "(fst (is_password_strong p) \<longleftrightarrow>
      8 \<le> length p \<and>
      (\<exists>c\<in>set p. CHR ''A'' \<le> c \<and> c \<le> CHR ''Z'') \<and>
      (\<exists>c\<in>set p. CHR ''a'' \<le> c \<and> c \<le> CHR ''z'') \<and>
      (\<exists>c\<in>set p. CHR ''0'' \<le> c \<and> c \<le> CHR ''9'') \<and>
      (\<exists>c\<in>set p. c \<in> {CHR ''!'', CHR ''@'', CHR ''#'', CHR ''$'', CHR ''%'', CHR ''^'',
          CHR ''&'', CHR ''*'', CHR ''('', CHR '')'', CHR '','', CHR ''.'', CHR ''?'', CHR 0x22,
          CHR '':'', CHR ''{'', CHR ''}'', CHR ''|'', CHR ''<'', CHR ''>''}))
   \<and> (\<not> fst (is_password_strong p) \<longrightarrow>
      (if length p < 8
       then snd (is_password_strong p) = ''Password must be at least 8 characters long''
       else (\<exists>ms. ms \<noteq> [] \<and>
          snd (is_password_strong p) = ''Password must contain: '' @ join '', '' ms \<and>
          (''uppercase letter'' \<in> set ms \<longleftrightarrow> \<not> (\<exists>c\<in>set p. CHR ''A'' \<le> c \<and> c \<le> CHR ''Z'')) \<and>
          (''lowercase letter'' \<in> set ms \<longleftrightarrow> \<not> (\<exists>c\<in>set p. CHR ''a'' \<le> c \<and> c \<le> CHR ''z'')) \<and>
          (''number'' \<in> set ms \<longleftrightarrow> \<not> (\<exists>c\<in>set p. CHR ''0'' \<le> c \<and> c \<le> CHR ''9'')) \<and>
          (''special character'' \<in> set ms \<longleftrightarrow> \<not> (\<exists>c\<in>set p. c \<in> set SPECIAL_CHARS)))))"
proof -
  have strong: "fst (is_password_strong p) \<longleftrightarrow> 8 \<le> length p \<and> failed_requirements p = []"
    by (simp add: is_password_strong_def MIN_PASSWORD_LENGTH_def Let_def)
  have names: "(''uppercase letter'' \<in> set (failed_requirements p) \<longleftrightarrow>
        \<not> (\<exists>c\<in>set p. CHR ''A'' \<le> c \<and> c \<le> CHR ''Z'')) \<and>
      (''lowercase letter'' \<in> set (failed_requirements p) \<longleftrightarrow>
        \<not> (\<exists>c\<in>set p. CHR ''a'' \<le> c \<and> c \<le> CHR ''z'')) \<and>
      (''number'' \<in> set (failed_requirements p) \<longleftrightarrow>
        \<not> (\<exists>c\<in>set p. CHR ''0'' \<le> c \<and> c \<le> CHR ''9'')) \<and>
      (''special character'' \<in> set (failed_requirements p) \<longleftrightarrow>
        \<not> (\<exists>c\<in>set p. c \<in> set SPECIAL_CHARS))"
    by (simp add: failed_requirements_def re_search_def in_range_def list_ex_iff
        REQUIRE_UPPERCASE_def REQUIRE_LOWERCASE_def REQUIRE_NUMBERS_def
        REQUIRE_SPECIAL_CHARS_def)
  have first: "fst (is_password_strong p) \<longleftrightarrow>
      8 \<le> length p \<and>
      (\<exists>c\<in>set p. CHR ''A'' \<le> c \<and> c \<le> CHR ''Z'') \<and>
      (\<exists>c\<in>set p. CHR ''a'' \<le> c \<and> c \<le> CHR ''z'') \<and>
      (\<exists>c\<in>set p. CHR ''0'' \<le> c \<and> c \<le> CHR ''9'') \<and>
      (\<exists>c\<in>set p. c \<in> {CHR ''!'', CHR ''@'', CHR ''#'', CHR ''$'', CHR ''%'', CHR ''^'',
          CHR ''&'', CHR ''*'', CHR ''('', CHR '')'', CHR '','', CHR ''.'', CHR ''?'', CHR 0x22,
          CHR '':'', CHR ''{'', CHR ''}'', CHR ''|'', CHR ''<'', CHR ''>''})"
    unfolding strong failed_requirements_empty set_SPECIAL_CHARS [symmetric]
    by (simp add: list_ex_iff in_range_def)
  have second: "\<not> fst (is_password_strong p) \<longrightarrow>
      (if length p < 8
       then snd (is_password_strong p) = ''Password must be at least 8 characters long''
       else (\<exists>ms. ms \<noteq> [] \<and>
          snd (is_password_strong p) = ''Password must contain: '' @ join '', '' ms \<and>
          (''uppercase letter'' \<in> set ms \<longleftrightarrow> \<not> (\<exists>c\<in>set p. CHR ''A'' \<le> c \<and> c \<le> CHR ''Z'')) \<and>
          (''lowercase letter'' \<in> set ms \<longleftrightarrow> \<not> (\<exists>c\<in>set p. CHR ''a'' \<le> c \<and> c \<le> CHR ''z'')) \<and>
          (''number'' \<in> set ms \<longleftrightarrow> \<not> (\<exists>c\<in>set p. CHR ''0'' \<le> c \<and> c \<le> CHR ''9'')) \<and>
          (''special character'' \<in> set ms \<longleftrightarrow> \<not> (\<exists>c\<in>set p. c \<in> set SPECIAL_CHARS))))"
  proof (cases "length p < 8")
    case True
    then show ?thesis
      by (simp add: is_password_strong_def MIN_PASSWORD_LENGTH_def)
  next
    case False
    show ?thesis
    proof
      assume weak: "\<not> fst (is_password_strong p)"
      with False strong have ne: "failed_requirements p \<noteq> []" by simp
      with False have msg: "snd (is_password_strong p) =
          ''Password must contain: '' @ join '', '' (failed_requirements p)"
        by (simp add: is_password_strong_def MIN_PASSWORD_LENGTH_def Let_def)
      from ne msg names have "\<exists>ms. ms \<noteq> [] \<and>
          snd (is_password_strong p) = ''Password must contain: '' @ join '', '' ms \<and>
          (''uppercase letter'' \<in> set ms \<longleftrightarrow> \<not> (\<exists>c\<in>set p. CHR ''A'' \<le> c \<and> c \<le> CHR ''Z'')) \<and>
          (''lowercase letter'' \<in> set ms \<longleftrightarrow> \<not> (\<exists>c\<in>set p. CHR ''a'' \<le> c \<and> c \<le> CHR ''z'')) \<and>
          (''number'' \<in> set ms \<longleftrightarrow> \<not> (\<exists>c\<in>set p. CHR ''0'' \<le> c \<and> c \<le> CHR ''9'')) \<and>
          (''special character'' \<in> set ms \<longleftrightarrow> \<not> (\<exists>c\<in>set p. c \<in> set SPECIAL_CHARS))"
        by blast
      with False show "if length p < 8
       then snd (is_password_strong p) = ''Password must be at least 8 characters long''
       else (\<exists>ms. ms \<noteq> [] \<and>
          snd (is_password_strong p) = ''Password must contain: '' @ join '', '' ms \<and>
          (''uppercase letter'' \<in> set ms \<longleftrightarrow> \<not> (\<exists>c\<in>set p. CHR ''A'' \<le> c \<and> c \<le> CHR ''Z'')) \<and>
          (''lowercase letter'' \<in> set ms \<longleftrightarrow> \<not> (\<exists>c\<in>set p. CHR ''a'' \<le> c \<and> c \<le> CHR ''z'')) \<and>
          (''number'' \<in> set ms \<longleftrightarrow> \<not> (\<exists>c\<in>set p. CHR ''0'' \<le> c \<and> c \<le> CHR ''9'')) \<and>
          (''special character'' \<in> set ms \<longleftrightarrow> \<not> (\<exists>c\<in>set p. c \<in> set SPECIAL_CHARS)))"
        by simp
    qed
  qed
  from first second show ?thesis by blast
qed

theorem is_password_strong_iff_witness:
  "fst (is_password_strong ''Abcdef1!'') \<and> \<not> fst (is_password_strong ''abcdefg1'') \<and>
   \<not> fst (is_password_strong ''Ab1!'') \<and>
   snd (is_password_strong ''Ab1!'') = ''Password must be at least 8 characters long'' \<and>
   snd (is_password_strong ''abcdefg1'') = ''Password must contain: uppercase letter, special character''"
proof -
  have a: "fst (is_password_strong ''Abcdef1!'')"
    using is_password_strong_iff [of "''Abcdef1!''"] by simp
  have b: "\<not> fst (is_password_strong ''abcdefg1'')"
    using is_password_strong_iff [of "''abcdefg1''"] by simp
  have c: "snd (is_password_strong ''abcdefg1'') = ''Password must contain: uppercase letter, special character''"
    by (simp add: is_password_strong_def MIN_PASSWORD_LENGTH_def failed_requirements_def re_search_def in_range_def
        REQUIRE_UPPERCASE_def REQUIRE_LOWERCASE_def REQUIRE_NUMBERS_def
        REQUIRE_SPECIAL_CHARS_def SPECIAL_CHARS_def)
  have d: "\<not> fst (is_password_strong ''Ab1!'')"
    using is_password_strong_iff [of "''Ab1!''"] by simp
  with is_password_strong_iff [of "''Ab1!''"]
  have e: "snd (is_password_strong ''Ab1!'') = ''Password must be at least 8 characters long''"
    by simp
  from a b c d e show ?thesis by blast
qed

end
